theory Spec2Isabelle
  imports Complex_Main
begin

section \<open>Text primitives of the wire protocol\<close>

text \<open>
  The drivers speak a line protocol: fields are joined by a comma, records by a
  vertical bar, messages end with a newline. Go strings are byte strings, so a
  \<^typ>\<open>string\<close> (a list of 8-bit characters) is the model of a Go string.
\<close>

text \<open>
  \<^verbatim>\<open>strings.Split(s, sep)\<close> for a separator of one byte: the pieces between the
  occurrences of the separator, in order; a string without the separator (the empty
  string too) gives one piece.
\<close>

fun split_on :: "char \<Rightarrow> string \<Rightarrow> string list" where
  "split_on c [] = [[]]"
| "split_on c (x # xs) =
     (if x = c then [] # split_on c xs
      else (case split_on c xs of
              [] \<Rightarrow> [[x]]
            | y # ys \<Rightarrow> (x # y) # ys))"

text \<open>
  \<^verbatim>\<open>strings.TrimSpace\<close> removes the leading and the trailing white space runes of
  Unicode. In UTF-8 these are the six ASCII bytes 09..0D and 20 and the byte
  sequences listed in \<open>space_runes\<close> (U+0085, U+00A0, U+1680, U+2000..U+200A,
  U+2028, U+2029, U+202F, U+205F, U+3000).
\<close>

definition space_runes :: "string list" where
  "space_runes =
     [[CHR 0x09], [CHR 0x0A], [CHR 0x0B], [CHR 0x0C], [CHR 0x0D], [CHR 0x20],
      [CHR 0xC2, CHR 0x85], [CHR 0xC2, CHR 0xA0],
      [CHR 0xE1, CHR 0x9A, CHR 0x80],
      [CHR 0xE2, CHR 0x80, CHR 0x80], [CHR 0xE2, CHR 0x80, CHR 0x81],
      [CHR 0xE2, CHR 0x80, CHR 0x82], [CHR 0xE2, CHR 0x80, CHR 0x83],
      [CHR 0xE2, CHR 0x80, CHR 0x84], [CHR 0xE2, CHR 0x80, CHR 0x85],
      [CHR 0xE2, CHR 0x80, CHR 0x86], [CHR 0xE2, CHR 0x80, CHR 0x87],
      [CHR 0xE2, CHR 0x80, CHR 0x88], [CHR 0xE2, CHR 0x80, CHR 0x89],
      [CHR 0xE2, CHR 0x80, CHR 0x8A],
      [CHR 0xE2, CHR 0x80, CHR 0xA8], [CHR 0xE2, CHR 0x80, CHR 0xA9],
      [CHR 0xE2, CHR 0x80, CHR 0xAF],
      [CHR 0xE2, CHR 0x81, CHR 0x9F],
      [CHR 0xE3, CHR 0x80, CHR 0x80]]"

text \<open>
  The length in bytes of the white space rune a string starts with (ends with),
  0 when there is none.
\<close>

definition space_prefix_len :: "string \<Rightarrow> nat" where
  "space_prefix_len s =
     (case find (\<lambda>r. take (length r) s = r) space_runes of
        None \<Rightarrow> 0
      | Some r \<Rightarrow> length r)"

definition space_suffix_len :: "string \<Rightarrow> nat" where
  "space_suffix_len s =
     (case find (\<lambda>r. take (length r) (rev s) = rev r) space_runes of
        None \<Rightarrow> 0
      | Some r \<Rightarrow> length r)"

lemma space_runes_nonempty: "r \<in> set space_runes \<Longrightarrow> r \<noteq> []"
  by (auto simp: space_runes_def)

lemma space_prefix_len_le: "space_prefix_len s \<le> length s"
proof (cases "find (\<lambda>r. take (length r) s = r) space_runes")
  case None
  then show ?thesis by (simp add: space_prefix_len_def)
next
  case (Some r)
  then have "take (length r) s = r"
    by (auto simp: find_Some_iff)
  then have "length r \<le> length s"
    by (metis length_take min.cobounded1)
  with Some show ?thesis by (simp add: space_prefix_len_def)
qed

lemma space_suffix_len_le: "space_suffix_len s \<le> length s"
proof (cases "find (\<lambda>r. take (length r) (rev s) = rev r) space_runes")
  case None
  then show ?thesis by (simp add: space_suffix_len_def)
next
  case (Some r)
  then have "take (length r) (rev s) = rev r"
    by (auto simp: find_Some_iff)
  then have "length (rev r) \<le> length (rev s)"
    by (metis length_take min.cobounded1)
  with Some show ?thesis by (simp add: space_suffix_len_def)
qed

function trim_left :: "string \<Rightarrow> string" where
  "trim_left s =
     (if space_prefix_len s = 0 then s else trim_left (drop (space_prefix_len s) s))"
  by pat_completeness auto
termination
proof (relation "measure length")
  show "wf (measure length)" by simp
next
  fix s :: string
  assume "space_prefix_len s \<noteq> 0"
  moreover have "space_prefix_len s \<le> length s" by (rule space_prefix_len_le)
  ultimately show "(drop (space_prefix_len s) s, s) \<in> measure length"
    by simp
qed

function trim_right :: "string \<Rightarrow> string" where
  "trim_right s =
     (if space_suffix_len s = 0 then s
      else trim_right (take (length s - space_suffix_len s) s))"
  by pat_completeness auto
termination
proof (relation "measure length")
  show "wf (measure length)" by simp
next
  fix s :: string
  assume "space_suffix_len s \<noteq> 0"
  moreover have "space_suffix_len s \<le> length s" by (rule space_suffix_len_le)
  ultimately show "(take (length s - space_suffix_len s) s, s) \<in> measure length"
    by simp
qed

definition TrimSpace :: "string \<Rightarrow> string" where
  "TrimSpace s = trim_right (trim_left s)"

declare trim_left.simps [simp del] trim_right.simps [simp del]

subsection \<open>Decimal integers: the verb \<open>%d\<close> and \<open>strconv.ParseInt\<close>\<close>

definition digit_char :: "nat \<Rightarrow> char" where
  "digit_char d = ''0123456789'' ! d"

definition is_digit :: "char \<Rightarrow> bool" where
  "is_digit c = (48 \<le> (of_char c :: nat) \<and> (of_char c :: nat) \<le> 57)"

definition digit_val :: "char \<Rightarrow> nat" where
  "digit_val c = of_char c - 48"

function showNat :: "nat \<Rightarrow> string" where
  "showNat n = (if n < 10 then [digit_char n] else showNat (n div 10) @ [digit_char (n mod 10)])"
  by pat_completeness auto
termination
  by (relation "measure id") auto

declare showNat.simps [simp del]

text \<open>\<^verbatim>\<open>%d\<close>: a minus sign for a negative number, then the decimal digits.\<close>

definition showInt :: "int \<Rightarrow> string" where
  "showInt i = (if i < 0 then CHR ''-'' # showNat (nat (- i)) else showNat (nat i))"

text \<open>The digit loop of \<^verbatim>\<open>strconv.ParseUint\<close> in base 10: a byte that is no digit is an error.\<close>

fun parse_digits :: "nat \<Rightarrow> string \<Rightarrow> nat option" where
  "parse_digits acc [] = Some acc"
| "parse_digits acc (c # cs) =
     (if is_digit c then parse_digits (acc * 10 + digit_val c) cs else None)"

text \<open>
  \<^verbatim>\<open>strconv.ParseInt(s, 10, 64)\<close>: an optional sign, at least one digit, nothing
  else, and a value that fits 64 signed bits. \<open>None\<close> is the \<^verbatim>\<open>*NumError\<close>
  (syntax or range; the callers do not tell them apart).
\<close>

definition ParseInt :: "string \<Rightarrow> int option" where
  "ParseInt s =
     (if s = [] then None
      else
        let neg = (hd s = CHR ''-'');
            t = (if hd s = CHR ''+'' \<or> hd s = CHR ''-'' then tl s else s)
        in if t = [] then None
           else (case parse_digits 0 t of
                   None \<Rightarrow> None
                 | Some un \<Rightarrow>
                     if \<not> neg \<and> un \<ge> 2 ^ 63 then None
                     else if neg \<and> un > 2 ^ 63 then None
                     else Some (if neg then - int un else int un)))"

subsection \<open>Floating point values\<close>

text \<open>
  A \<^verbatim>\<open>float64\<close> is a finite value (\<open>Fin x\<close>, with \<open>Fin 0\<close> the positive zero), the
  negative zero, an infinity or NaN. The arithmetic is that of IEEE 754 in the default
  rounding mode: the exact result is rounded to the nearest value representable with
  53 significant bits between the exponents -1022 and 1023, a tie going to the even
  neighbour; a rounded magnitude of \<open>2 ^ 1024\<close> or more is an infinity.
\<close>

datatype f64 = Fin real | NegZero | PosInf | NegInf | NaN64

definition round_half_even :: "real \<Rightarrow> int" where
  "round_half_even x =
     (let f = \<lfloor>x\<rfloor>; d = x - of_int f
      in if d < 1 / 2 then f
         else if 1 / 2 < d then f + 1
         else if even f then f else f + 1)"

text \<open>
  The binary exponent of a magnitude, kept between -1022 (where the subnormal
  numbers are) and 1023: the search starts at -1022 and goes up while the next power
  of two is not above the magnitude.
\<close>

fun find_exponent :: "nat \<Rightarrow> int \<Rightarrow> real \<Rightarrow> int" where
  "find_exponent 0 e x = e"
| "find_exponent (Suc n) e x =
     (if 2 powi (e + 1) \<le> x then find_exponent n (e + 1) x else e)"

definition f64_exponent :: "real \<Rightarrow> int" where
  "f64_exponent x = find_exponent 2045 (- 1022) \<bar>x\<bar>"

text \<open>Rounding a real to \<^verbatim>\<open>float64\<close>: \<open>u\<close> is the distance between neighbours at \<open>x\<close>.\<close>

definition f64_round :: "real \<Rightarrow> f64" where
  "f64_round x =
     (let u = 2 powi (f64_exponent x - 52);
          r = of_int (round_half_even (\<bar>x\<bar> / u)) * u
      in if 2 ^ 1024 \<le> r then (if 0 < x then PosInf else NegInf)
         else if r = 0 then (if x < 0 then NegZero else Fin 0)
         else Fin (if x < 0 then - r else r))"

fun f64_negative :: "f64 \<Rightarrow> bool" where
  "f64_negative (Fin x) = (x < 0)"
| "f64_negative NegZero = True"
| "f64_negative PosInf = False"
| "f64_negative NegInf = True"
| "f64_negative NaN64 = False"

fun f64_is_zero :: "f64 \<Rightarrow> bool" where
  "f64_is_zero (Fin x) = (x = 0)"
| "f64_is_zero NegZero = True"
| "f64_is_zero a = False"

fun f64_is_inf :: "f64 \<Rightarrow> bool" where
  "f64_is_inf PosInf = True"
| "f64_is_inf NegInf = True"
| "f64_is_inf a = False"

fun f64_value :: "f64 \<Rightarrow> real" where
  "f64_value (Fin x) = x"
| "f64_value a = 0"

definition signed_zero :: "bool \<Rightarrow> f64" where
  "signed_zero negative = (if negative then NegZero else Fin 0)"

definition signed_inf :: "bool \<Rightarrow> f64" where
  "signed_inf negative = (if negative then NegInf else PosInf)"

text \<open>The sum \<open>a + b\<close> of two \<^verbatim>\<open>float64\<close>.\<close>

fun f64_add :: "f64 \<Rightarrow> f64 \<Rightarrow> f64" where
  "f64_add NaN64 b = NaN64"
| "f64_add a NaN64 = NaN64"
| "f64_add PosInf NegInf = NaN64"
| "f64_add NegInf PosInf = NaN64"
| "f64_add PosInf b = PosInf"
| "f64_add a PosInf = PosInf"
| "f64_add NegInf b = NegInf"
| "f64_add a NegInf = NegInf"
| "f64_add NegZero NegZero = NegZero"
| "f64_add NegZero (Fin y) = Fin y"
| "f64_add (Fin x) NegZero = Fin x"
| "f64_add (Fin x) (Fin y) = (if x + y = 0 then Fin 0 else f64_round (x + y))"

text \<open>The quotient \<open>a / b\<close> of two \<^verbatim>\<open>float64\<close>.\<close>

definition f64_div :: "f64 \<Rightarrow> f64 \<Rightarrow> f64" where
  "f64_div a b =
     (let negative = (f64_negative a \<noteq> f64_negative b)
      in if a = NaN64 \<or> b = NaN64 then NaN64
         else if f64_is_inf a then (if f64_is_inf b then NaN64 else signed_inf negative)
         else if f64_is_inf b then signed_zero negative
         else if f64_is_zero b then (if f64_is_zero a then NaN64 else signed_inf negative)
         else if f64_is_zero a then signed_zero negative
         else f64_round (f64_value a / f64_value b))"

text \<open>The conversion \<^verbatim>\<open>float64(n)\<close> of an integer.\<close>

definition f64_of_int :: "int \<Rightarrow> f64" where
  "f64_of_int n = f64_round (of_int n)"

text \<open>
  \<^verbatim>\<open>strconv.ParseFloat\<close> belongs to the Go runtime and is a parameter
  \<open>pf :: string \<Rightarrow> f64 option\<close> of every function that calls it (\<open>None\<close> is its
  error). The verb \<^verbatim>\<open>%.2f\<close> prints a finite value rounded to two decimals, a tie
  going to the even neighbour (\<open>fmt_2f\<close>), and the other values by name.
\<close>

definition fmt_2f :: "real \<Rightarrow> string" where
  "fmt_2f x =
     (let n = nat (round_half_even (\<bar>x\<bar> * 100))
      in (if x < 0 then [CHR ''-''] else []) @ showNat (n div 100) @ [CHR ''.''] @
         [digit_char (n div 10 mod 10), digit_char (n mod 10)])"

definition fmt_f64 :: "f64 \<Rightarrow> string" where
  "fmt_f64 a =
     (case a of
        Fin x \<Rightarrow> fmt_2f x
      | NegZero \<Rightarrow> ''-0.00''
      | PosInf \<Rightarrow> ''+Inf''
      | NegInf \<Rightarrow> ''-Inf''
      | NaN64 \<Rightarrow> ''NaN'')"

text \<open>
  The plain decimal literals \<open>[+-]digits[.digits]\<close>: \<open>plain_decimal\<close> is their
  exact value, and \<open>ParseFloat_plain\<close> is that value rounded to \<^verbatim>\<open>float64\<close>, which is
  what \<^verbatim>\<open>strconv.ParseFloat\<close> returns for a literal of this shape. The closed
  examples below instantiate \<open>pf\<close> with \<open>ParseFloat_plain\<close>.
\<close>

definition plain_unsigned :: "string \<Rightarrow> real option" where
  "plain_unsigned s =
     (let ip = takeWhile (\<lambda>c. c \<noteq> CHR ''.'') s;
          fp = drop (length ip) s
      in if ip = [] then None
         else (case parse_digits 0 ip of
                 None \<Rightarrow> None
               | Some a \<Rightarrow>
                   if fp = [] then Some (real a)
                   else if tl fp = [] then None
                   else (case parse_digits 0 (tl fp) of
                           None \<Rightarrow> None
                         | Some b \<Rightarrow> Some (real a + real b / 10 ^ length (tl fp)))))"

definition plain_decimal :: "string \<Rightarrow> real option" where
  "plain_decimal s =
     (case s of
        [] \<Rightarrow> None
      | c # cs \<Rightarrow>
          if c = CHR ''-'' then map_option uminus (plain_unsigned cs)
          else if c = CHR ''+'' then plain_unsigned cs
          else plain_unsigned s)"

definition ParseFloat_plain :: "string \<Rightarrow> f64 option" where
  "ParseFloat_plain s =
     (case s of
        [] \<Rightarrow> None
      | c # cs \<Rightarrow>
          if c = CHR ''-''
          then map_option (\<lambda>u. if u = 0 then NegZero else f64_round (- u)) (plain_unsigned cs)
          else if c = CHR ''+'' then map_option f64_round (plain_unsigned cs)
          else map_option f64_round (plain_unsigned s))"

section \<open>The Go driver\<close>

subsection \<open>The connection\<close>

text \<open>
  The client owns a \<^verbatim>\<open>net.Conn\<close>. Of the connection the model keeps whether it has
  been closed, the writes made so far (one entry per \<^verbatim>\<open>Write\<close>, oldest first) and the
  chunks the peer has sent that are still unread. The errors are those of the
  driver's own \<^verbatim>\<open>fmt.Errorf\<close> calls and those handed on from the runtime.
\<close>

datatype error =
    ErrClosed             \<comment> \<open>the runtime's "use of closed network connection"\<close>
  | EOF                   \<comment> \<open>\<^verbatim>\<open>io.EOF\<close>: the input ended before a newline\<close>
  | NoDataError string    \<comment> \<open>"no data found for sensor %s" (with or without "in the specified time range")\<close>
  | InvalidDataFormat     \<comment> \<open>"invalid data format"\<close>
  | NumError              \<comment> \<open>\<^verbatim>\<open>*strconv.NumError\<close> of ParseInt or ParseFloat\<close>
  | NoValidMeasurements   \<comment> \<open>"no valid measurements found"\<close>

record net_conn =
  conn_closed :: bool
  conn_written :: "string list"
  conn_incoming :: "string list"

definition conn_Write :: "net_conn \<Rightarrow> string \<Rightarrow> error option \<times> net_conn" where
  "conn_Write cn bytes =
     (if conn_closed cn then (Some ErrClosed, cn)
      else (None, cn\<lparr>conn_written := conn_written cn @ [bytes]\<rparr>))"

text \<open>
  \<^verbatim>\<open>net.Conn.Close\<close>: closing an open connection succeeds; on a connection that is
  closed already the runtime returns its error.
\<close>

definition conn_Close :: "net_conn \<Rightarrow> error option \<times> net_conn" where
  "conn_Close cn =
     (if conn_closed cn then (Some ErrClosed, cn)
      else (None, cn\<lparr>conn_closed := True\<rparr>))"

text \<open>
  \<^verbatim>\<open>bufio.NewReader(conn).ReadString('\n')\<close>: chunks are read until one holds a
  newline; the result is everything up to and including the first newline. The reader
  is dropped afterwards, and what it had buffered behind the newline with it.
\<close>

fun read_string :: "string \<Rightarrow> string list \<Rightarrow> (string \<times> string list) option" where
  "read_string acc [] = None"
| "read_string acc (chunk # chunks) =
     (if CHR 0x0A \<in> set chunk
      then Some (acc @ takeWhile (\<lambda>c. c \<noteq> CHR 0x0A) chunk @ [CHR 0x0A], chunks)
      else read_string (acc @ chunk) chunks)"

definition conn_ReadString :: "net_conn \<Rightarrow> (error + string) \<times> net_conn" where
  "conn_ReadString cn =
     (if conn_closed cn then (Inl ErrClosed, cn)
      else (case read_string [] (conn_incoming cn) of
              None \<Rightarrow> (Inl EOF, cn\<lparr>conn_incoming := []\<rparr>)
            | Some (line, rest) \<Rightarrow> (Inr line, cn\<lparr>conn_incoming := rest\<rparr>)))"

record TSDBClient =
  conn :: net_conn

subsection \<open>Close, WriteData, ReadData, Subscribe, Unsubscribe\<close>

definition Close :: "TSDBClient \<Rightarrow> error option \<times> TSDBClient" where
  "Close c = (let (err, cn) = conn_Close (conn c) in (err, c\<lparr>conn := cn\<rparr>))"

text \<open>\<^verbatim>\<open>fmt.Fprintf(c.conn, "%s,%d,%.2f\n", key, timestamp, value)\<close>\<close>

definition encodeWrite :: "string \<Rightarrow> int \<Rightarrow> f64 \<Rightarrow> string" where
  "encodeWrite key timestamp val =
     key @ [CHR '',''] @ showInt timestamp @ [CHR '',''] @ fmt_f64 val @ [CHR 0x0A]"

definition WriteData :: "TSDBClient \<Rightarrow> string \<Rightarrow> int \<Rightarrow> f64 \<Rightarrow> error option \<times> TSDBClient" where
  "WriteData c key timestamp val =
     (let (err, cn) = conn_Write (conn c) (encodeWrite key timestamp val)
      in (err, c\<lparr>conn := cn\<rparr>))"

text \<open>\<^verbatim>\<open>fmt.Fprintf(c.conn, "%s,%d,%d,%d\n", key, startTime, endTime, downsampling)\<close>\<close>

definition encodeQuery :: "string \<Rightarrow> int \<Rightarrow> int \<Rightarrow> int \<Rightarrow> string" where
  "encodeQuery key startTime endTime downsampling =
     key @ [CHR '',''] @ showInt startTime @ [CHR '',''] @ showInt endTime @ [CHR '',''] @
     showInt downsampling @ [CHR 0x0A]"

text \<open>\<^verbatim>\<open>strings.Split(strings.TrimSpace(response), "|")\<close>\<close>

definition split_response :: "string \<Rightarrow> string list" where
  "split_response response = split_on (CHR ''|'') (TrimSpace response)"

definition ReadData ::
  "TSDBClient \<Rightarrow> string \<Rightarrow> int \<Rightarrow> int \<Rightarrow> int \<Rightarrow> (error + string list) \<times> TSDBClient" where
  "ReadData c key startTime endTime downsampling =
     (let (werr, cn) = conn_Write (conn c) (encodeQuery key startTime endTime downsampling)
      in case werr of
           Some err \<Rightarrow> (Inl err, c\<lparr>conn := cn\<rparr>)
         | None \<Rightarrow>
             (let (r, cn') = conn_ReadString cn
              in case r of
                   Inl err \<Rightarrow> (Inl err, c\<lparr>conn := cn'\<rparr>)
                 | Inr response \<Rightarrow> (Inr (split_response response), c\<lparr>conn := cn'\<rparr>)))"

definition Subscribe :: "TSDBClient \<Rightarrow> string \<Rightarrow> error option \<times> TSDBClient" where
  "Subscribe c key =
     (let (err, cn) = conn_Write (conn c) (''subscribe,'' @ key @ [CHR 0x0A])
      in (err, c\<lparr>conn := cn\<rparr>))"

definition Unsubscribe :: "TSDBClient \<Rightarrow> string \<Rightarrow> error option \<times> TSDBClient" where
  "Unsubscribe c key =
     (let (err, cn) = conn_Write (conn c) (''unsubscribe,'' @ key @ [CHR 0x0A])
      in (err, c\<lparr>conn := cn\<rparr>))"

text \<open>The clock is a parameter: \<open>now\<close> is \<^verbatim>\<open>time.Now().Unix()\<close>.\<close>

definition RecordMeasurement :: "int \<Rightarrow> TSDBClient \<Rightarrow> string \<Rightarrow> f64 \<Rightarrow> error option \<times> TSDBClient" where
  "RecordMeasurement now c sensorID val = WriteData c sensorID now val"

subsection \<open>GetLatestMeasurement\<close>

text \<open>
  What \<^verbatim>\<open>GetLatestMeasurement\<close> does with the records that \<^verbatim>\<open>ReadData\<close> returned.
  The result is the value and the Unix time of the last record.
\<close>

definition latest_of_data :: "(string \<Rightarrow> f64 option) \<Rightarrow> string \<Rightarrow> string list \<Rightarrow> error + (f64 \<times> int)" where
  "latest_of_data pf sensorID data =
     (if length data = 0 then Inl (NoDataError sensorID)
      else
        let parts = split_on (CHR '','') (data ! (length data - 1))
        in if length parts \<noteq> 3 then Inl InvalidDataFormat
           else (case ParseInt (parts ! 1) of
                   None \<Rightarrow> Inl NumError
                 | Some timestamp \<Rightarrow>
                     (case pf (parts ! 2) of
                        None \<Rightarrow> Inl NumError
                      | Some val \<Rightarrow> Inr (val, timestamp))))"

definition GetLatestMeasurement ::
  "(string \<Rightarrow> f64 option) \<Rightarrow> int \<Rightarrow> TSDBClient \<Rightarrow> string \<Rightarrow> (error + (f64 \<times> int)) \<times> TSDBClient" where
  "GetLatestMeasurement pf now c sensorID =
     (let endTime = now;
          startTime = endTime - 3600;
          (r, c') = ReadData c sensorID startTime endTime 0
      in case r of
           Inl err \<Rightarrow> (Inl err, c')
         | Inr data \<Rightarrow> (latest_of_data pf sensorID data, c'))"

subsection \<open>GetAverageMeasurement\<close>

text \<open>
  The loop over the records: a record that does not split into three fields, or
  whose third field \<^verbatim>\<open>ParseFloat\<close> rejects, is passed over (\<^verbatim>\<open>continue\<close>); the
  others add to \<open>sm\<close> (the source's \<^verbatim>\<open>sum\<close>) and \<open>count\<close>.
\<close>

fun average_loop :: "(string \<Rightarrow> f64 option) \<Rightarrow> f64 \<times> int \<Rightarrow> string list \<Rightarrow> f64 \<times> int" where
  "average_loop pf (sm, count) [] = (sm, count)"
| "average_loop pf (sm, count) (measurement # rest) =
     (let parts = split_on (CHR '','') measurement
      in if length parts \<noteq> 3 then average_loop pf (sm, count) rest
         else (case pf (parts ! 2) of
                 None \<Rightarrow> average_loop pf (sm, count) rest
               | Some val \<Rightarrow> average_loop pf (f64_add sm val, count + 1) rest))"

definition average_of_data :: "(string \<Rightarrow> f64 option) \<Rightarrow> string \<Rightarrow> string list \<Rightarrow> error + f64" where
  "average_of_data pf sensorID data =
     (if length data = 0 then Inl (NoDataError sensorID)
      else
        let (sm, count) = average_loop pf (Fin 0, 0) data
        in if count = 0 then Inl NoValidMeasurements
           else Inr (f64_div sm (f64_of_int count)))"

text \<open>\<open>durationSeconds\<close> is \<^verbatim>\<open>int64(duration.Seconds())\<close>.\<close>

definition GetAverageMeasurement ::
  "(string \<Rightarrow> f64 option) \<Rightarrow> int \<Rightarrow> TSDBClient \<Rightarrow> string \<Rightarrow> int \<Rightarrow> (error + f64) \<times> TSDBClient" where
  "GetAverageMeasurement pf now c sensorID durationSeconds =
     (let endTime = now;
          startTime = endTime - durationSeconds;
          (r, c') = ReadData c sensorID startTime endTime 0
      in case r of
           Inl err \<Rightarrow> (Inl err, c')
         | Inr data \<Rightarrow> (average_of_data pf sensorID data, c'))"

text \<open>
  The values of the valid records of a response, in the words of the specification:
  a record is valid when it has exactly three fields and its third field is a number.
\<close>

definition valid_values :: "(string \<Rightarrow> f64 option) \<Rightarrow> string list \<Rightarrow> f64 list" where
  "valid_values pf data =
     concat (map (\<lambda>measurement.
                    let parts = split_on (CHR '','') measurement
                    in if length parts = 3
                       then (case pf (parts ! 2) of None \<Rightarrow> [] | Some val \<Rightarrow> [val])
                       else [])
                 data)"

subsection \<open>GetMeasurementHistory\<close>

text \<open>An entry of the history: the Unix time and the value of one record.\<close>

record history_entry =
  Timestamp :: int
  Value :: f64

fun history_loop :: "(string \<Rightarrow> f64 option) \<Rightarrow> history_entry list \<Rightarrow> string list \<Rightarrow> history_entry list" where
  "history_loop pf history [] = history"
| "history_loop pf history (measurement # rest) =
     (let parts = split_on (CHR '','') measurement
      in if length parts \<noteq> 3 then history_loop pf history rest
         else (case ParseInt (parts ! 1) of
                 None \<Rightarrow> history_loop pf history rest
               | Some timestamp \<Rightarrow>
                   (case pf (parts ! 2) of
                      None \<Rightarrow> history_loop pf history rest
                    | Some val \<Rightarrow>
                        history_loop pf (history @ [\<lparr>Timestamp = timestamp, Value = val\<rparr>]) rest)))"

text \<open>
  \<open>intervalSeconds\<close> is \<^verbatim>\<open>int(interval.Seconds())\<close>; \<open>startTime\<close> and \<open>endTime\<close> are
  the \<^verbatim>\<open>Unix()\<close> seconds of the two times.
\<close>

definition GetMeasurementHistory ::
  "(string \<Rightarrow> f64 option) \<Rightarrow> TSDBClient \<Rightarrow> string \<Rightarrow> int \<Rightarrow> int \<Rightarrow> int \<Rightarrow>
     (error + history_entry list) \<times> TSDBClient" where
  "GetMeasurementHistory pf c sensorID startTime endTime intervalSeconds =
     (let downsamplingSeconds = (if intervalSeconds < 1 then 1 else intervalSeconds);
          (r, c') = ReadData c sensorID startTime endTime downsamplingSeconds
      in case r of
           Inl err \<Rightarrow> (Inl err, c')
         | Inr data \<Rightarrow> (Inr (history_loop pf [] data), c'))"

text \<open>
  The decoding of the records of a response into data points, as the loop of
  \<^verbatim>\<open>GetMeasurementHistory\<close> does it, with the key of each record kept.
\<close>

fun decode_records :: "(string \<Rightarrow> f64 option) \<Rightarrow> string list \<Rightarrow> (string \<times> int \<times> f64) list" where
  "decode_records pf [] = []"
| "decode_records pf (measurement # rest) =
     (let parts = split_on (CHR '','') measurement
      in if length parts \<noteq> 3 then decode_records pf rest
         else (case ParseInt (parts ! 1) of
                 None \<Rightarrow> decode_records pf rest
               | Some timestamp \<Rightarrow>
                   (case pf (parts ! 2) of
                      None \<Rightarrow> decode_records pf rest
                    | Some val \<Rightarrow> (parts ! 0, timestamp, val) # decode_records pf rest)))"

text \<open>
  The decoding of bytes that arrive as a query response, as \<^verbatim>\<open>ReadData\<close> and that
  loop do it together: \<^verbatim>\<open>ReadString\<close> takes the bytes up to the first newline (and
  fails when there is none), the line is trimmed and split into records, and the
  records are decoded.
\<close>

definition decodeQueryResponse ::
  "(string \<Rightarrow> f64 option) \<Rightarrow> string \<Rightarrow> error + (string \<times> int \<times> f64) list" where
  "decodeQueryResponse pf bytes =
     (case read_string [] [bytes] of
        None \<Rightarrow> Inl EOF
      | Some (response, rest) \<Rightarrow> Inr (decode_records pf (split_response response)))"

section \<open>The JavaScript driver: one socket for queries and push notifications\<close>

text \<open>
  The JavaScript driver is the one with \<^verbatim>\<open>onSubscriptionData\<close>. Its text is taken to
  be ASCII, as the protocol is. A JavaScript number is \<open>NaN\<close> or a real; a value that
  may be \<^verbatim>\<open>undefined\<close> is an option.
\<close>

datatype jsnum = NaN | Num real

text \<open>\<^verbatim>\<open>String.prototype.trim\<close> on ASCII text: tab, line feed, vertical tab, form feed,
  carriage return and space go, at both ends.\<close>

definition js_space :: "char \<Rightarrow> bool" where
  "js_space c = (c \<in> set [CHR 0x09, CHR 0x0A, CHR 0x0B, CHR 0x0C, CHR 0x0D, CHR 0x20])"

definition js_trim :: "string \<Rightarrow> string" where
  "js_trim s = rev (dropWhile js_space (rev (dropWhile js_space s)))"

text \<open>
  \<^verbatim>\<open>parseInt\<close> and \<^verbatim>\<open>parseFloat\<close> belong to the runtime and are parameters
  \<open>pI\<close>, \<open>pF\<close> on strings. Applied to \<^verbatim>\<open>undefined\<close> both give \<open>NaN\<close> (the text
  "undefined" starts with no number).
\<close>

definition parse_arg :: "(string \<Rightarrow> jsnum) \<Rightarrow> string option \<Rightarrow> jsnum" where
  "parse_arg p v = (case v of None \<Rightarrow> NaN | Some s \<Rightarrow> p s)"

text \<open>The plain signed literals, for the closed examples: on them \<^verbatim>\<open>parseInt\<close> and
  \<^verbatim>\<open>parseFloat\<close> give the value read, and on a text that starts with no number \<open>NaN\<close>.\<close>

definition parseInt_plain :: "string \<Rightarrow> jsnum" where
  "parseInt_plain s = (case ParseInt s of None \<Rightarrow> NaN | Some i \<Rightarrow> Num (real_of_int i))"

definition parseFloat_plain :: "string \<Rightarrow> jsnum" where
  "parseFloat_plain s = (case plain_decimal s of None \<Rightarrow> NaN | Some r \<Rightarrow> Num r)"

definition times_1000 :: "jsnum \<Rightarrow> jsnum" where
  "times_1000 x = (case x of NaN \<Rightarrow> NaN | Num r \<Rightarrow> Num (r * 1000))"

text \<open>
  The object handed to the subscription callback. \<open>dp_timestamp\<close> is the time value
  of the \<^verbatim>\<open>Date\<close> in milliseconds, \<open>NaN\<close> for an invalid date.
\<close>

record DataPoint =
  dp_key :: "string option"
  dp_timestamp :: jsnum
  dp_value :: jsnum

text \<open>An array element by index: \<^verbatim>\<open>undefined\<close> beyond the end.\<close>

definition element :: "'a list \<Rightarrow> nat \<Rightarrow> 'a option" where
  "element xs i = (if i < length xs then Some (xs ! i) else None)"

text \<open>
  The body of the \<^verbatim>\<open>forEach\<close> in \<^verbatim>\<open>onSubscriptionData\<close>:
  \<^verbatim>\<open>const [key, timestamp, value] = message.split(',')\<close> and the object built from them.
\<close>

definition decodePushLine :: "(string \<Rightarrow> jsnum) \<Rightarrow> (string \<Rightarrow> jsnum) \<Rightarrow> string \<Rightarrow> DataPoint" where
  "decodePushLine pI pF message =
     (let parts = split_on (CHR '','') message
      in \<lparr>dp_key = element parts 0,
          dp_timestamp = times_1000 (parse_arg pI (element parts 1)),
          dp_value = parse_arg pF (element parts 2)\<rparr>)"

text \<open>
  The listeners of the socket's \<^verbatim>\<open>'data'\<close> event, in the order of registration:
  \<open>OnceQuery q\<close> is the handler that \<^verbatim>\<open>readData\<close> registers with \<^verbatim>\<open>socket.once\<close>
  and that resolves the promise \<open>q\<close> of that call; \<open>OnSubscription cb\<close> is the handler that
  \<^verbatim>\<open>onSubscriptionData\<close> registers with \<^verbatim>\<open>socket.on\<close> for the callback \<open>cb\<close>.
\<close>

datatype listener = OnceQuery nat | OnSubscription nat

text \<open>What a chunk causes: a promise resolved with the records, a callback called with a data point.\<close>

datatype delivery = Resolved nat "string list" | Called nat DataPoint

record js_client =
  js_connected :: bool
  js_written :: "string list"
  js_listeners :: "listener list"

text \<open>
  \<^verbatim>\<open>readData\<close> writes the query line and registers its listener. Its numeric
  arguments are whole numbers (the callers pass \<^verbatim>\<open>Math.floor\<close> results), whose text
  in a template literal is the decimal text that \<open>encodeQuery\<close> prints.
\<close>

definition readData_js :: "js_client \<Rightarrow> nat \<Rightarrow> string \<Rightarrow> int \<Rightarrow> int \<Rightarrow> int \<Rightarrow> js_client" where
  "readData_js cl q key startTime endTime downsampling =
     cl\<lparr>js_written := js_written cl @ [encodeQuery key startTime endTime downsampling],
        js_listeners := js_listeners cl @ [OnceQuery q]\<rparr>"

definition onSubscriptionData :: "js_client \<Rightarrow> nat \<Rightarrow> js_client" where
  "onSubscriptionData cl cb = cl\<lparr>js_listeners := js_listeners cl @ [OnSubscription cb]\<rparr>"

text \<open>One listener called with a chunk.\<close>

fun fire :: "(string \<Rightarrow> jsnum) \<Rightarrow> (string \<Rightarrow> jsnum) \<Rightarrow> string \<Rightarrow> listener \<Rightarrow> delivery list" where
  "fire pI pF chunk (OnceQuery q) = [Resolved q (split_on (CHR ''|'') (js_trim chunk))]"
| "fire pI pF chunk (OnSubscription cb) =
     map (\<lambda>message. Called cb (decodePushLine pI pF message))
         (split_on (CHR 0x0A) (js_trim chunk))"

fun is_once :: "listener \<Rightarrow> bool" where
  "is_once (OnceQuery q) = True"
| "is_once (OnSubscription cb) = False"

text \<open>
  The socket emits \<^verbatim>\<open>'data'\<close>: every listener registered at that moment is called
  with the chunk, in the order of registration, and the \<^verbatim>\<open>once\<close> listeners are
  removed.
\<close>

definition emit_data ::
  "(string \<Rightarrow> jsnum) \<Rightarrow> (string \<Rightarrow> jsnum) \<Rightarrow> js_client \<Rightarrow> string \<Rightarrow> delivery list \<times> js_client" where
  "emit_data pI pF cl chunk =
     (concat (map (fire pI pF chunk) (js_listeners cl)),
      cl\<lparr>js_listeners := filter (\<lambda>l. \<not> is_once l) (js_listeners cl)\<rparr>)"

text \<open>The queries in flight and the subscription callbacks of a client.\<close>

fun waiting_queries :: "listener list \<Rightarrow> nat list" where
  "waiting_queries [] = []"
| "waiting_queries (OnceQuery q # ls) = q # waiting_queries ls"
| "waiting_queries (OnSubscription cb # ls) = waiting_queries ls"

fun subscription_callbacks :: "listener list \<Rightarrow> nat list" where
  "subscription_callbacks [] = []"
| "subscription_callbacks (OnceQuery q # ls) = subscription_callbacks ls"
| "subscription_callbacks (OnSubscription cb # ls) = cb # subscription_callbacks ls"

fun is_resolved :: "delivery \<Rightarrow> bool" where
  "is_resolved (Resolved q records) = True"
| "is_resolved (Called cb dp) = False"

section \<open>Lemmas on the text primitives\<close>

lemma split_on_nonempty: "split_on c s \<noteq> []"
  by (induction s) (auto split: list.splits)

lemma split_on_length: "1 \<le> length (split_on c s)"
  using split_on_nonempty[of c s] by (cases "split_on c s") auto

lemma split_on_absent: "c \<notin> set s \<Longrightarrow> split_on c s = [s]"
  by (induction s) auto

lemma split_on_first: "c \<notin> set a \<Longrightarrow> split_on c (a @ c # b) = a # split_on c b"
  by (induction a) auto

lemma TrimSpace_Nil: "TrimSpace [] = []"
  by (simp add: TrimSpace_def trim_left.simps[of "[]"] trim_right.simps[of "[]"]
      space_prefix_len_def space_suffix_len_def space_runes_def)

lemma space_suffix_len_newline: "space_suffix_len (s @ [CHR 0x0A]) = 1"
  by (simp add: space_suffix_len_def space_runes_def)

lemma trim_right_newline: "trim_right (s @ [CHR 0x0A]) = trim_right s"
  by (subst trim_right.simps) (simp add: space_suffix_len_newline)

lemma TrimSpace_newline: "TrimSpace [CHR 0x0A] = []"
  by code_simp

lemma digit_cases:
  "d < 10 \<Longrightarrow> d = 0 \<or> d = 1 \<or> d = 2 \<or> d = 3 \<or> d = 4 \<or> d = 5 \<or> d = 6 \<or> d = 7 \<or> d = 8 \<or> d = (9::nat)"
  by arith

lemma digit_char_props:
  assumes "d < 10"
  shows "is_digit (digit_char d)" "digit_val (digit_char d) = d"
  using digit_cases[OF assms] by (auto simp: is_digit_def digit_val_def digit_char_def)

lemma parse_digits_append:
  "parse_digits acc (xs @ ys) =
     (case parse_digits acc xs of None \<Rightarrow> None | Some a \<Rightarrow> parse_digits a ys)"
  by (induction xs arbitrary: acc) auto

lemma parse_digits_showNat: "parse_digits 0 (showNat n) = Some n"
proof (induction n rule: showNat.induct)
  case (1 n)
  show ?case
  proof (cases "n < 10")
    case True
    then show ?thesis by (simp add: showNat.simps[of n] digit_char_props)
  next
    case False
    with 1 have "parse_digits 0 (showNat (n div 10)) = Some (n div 10)" by simp
    moreover have "n mod 10 < 10" by simp
    ultimately show ?thesis using False
      by (simp add: showNat.simps[of n] parse_digits_append digit_char_props)
  qed
qed

lemma showNat_nonempty: "showNat n \<noteq> []"
  by (subst showNat.simps) simp

lemma showNat_digits: "c \<in> set (showNat n) \<Longrightarrow> is_digit c"
proof (induction n rule: showNat.induct)
  case (1 n)
  show ?case
  proof (cases "n < 10")
    case True
    with 1(2) show ?thesis by (simp add: showNat.simps[of n] digit_char_props)
  next
    case False
    have "n mod 10 < 10" by simp
    with 1 False show ?thesis
      by (auto simp add: showNat.simps[of n] digit_char_props)
  qed
qed

lemma ParseInt_showInt:
  assumes "- (2 ^ 63) \<le> i" "i < 2 ^ 63"
  shows "ParseInt (showInt i) = Some i"
proof (cases "i < 0")
  case True
  have "nat (- i) \<le> 2 ^ 63" using assms True by (simp add: nat_le_iff)
  then show ?thesis using True
    by (simp add: ParseInt_def showInt_def parse_digits_showNat showNat_nonempty)
next
  case False
  have d: "is_digit (hd (showNat (nat i)))"
    using showNat_nonempty[of "nat i"] showNat_digits[of _ "nat i"]
    by (cases "showNat (nat i)") auto
  have h: "hd (showNat (nat i)) \<noteq> CHR ''-''" "hd (showNat (nat i)) \<noteq> CHR ''+''"
    using d by (auto simp: is_digit_def)
  have "nat i < 2 ^ 63" using assms False by (simp add: nat_less_iff)
  then show ?thesis using False h
    by (simp add: ParseInt_def showInt_def parse_digits_showNat showNat_nonempty)
qed

section \<open>The records that ReadData returns\<close>

text \<open>
  C10. Whatever the response line, \<^verbatim>\<open>ReadData\<close> returns at least one record: the
  trimmed line split at the vertical bars has at least one piece. An empty line,
  and a line that is only the newline, give the single record \<open>""\<close>. So when
  \<^verbatim>\<open>ReadData\<close> succeeds, the list it hands to the three query operations is not empty.
\<close>

theorem split_response_never_empty:
  "1 \<le> length (split_response line) \<and>
   split_response [] = [[]] \<and>
   split_response [CHR 0x0A] = [[]] \<and>
   (case fst (ReadData c key startTime endTime downsampling) of
      Inl err \<Rightarrow> True
    | Inr data \<Rightarrow> data \<noteq> [])"
proof -
  have "case fst (ReadData c key startTime endTime downsampling) of
      Inl err \<Rightarrow> True
    | Inr data \<Rightarrow> data \<noteq> []"
    by (auto simp: ReadData_def split_response_def split_on_nonempty
        split: prod.splits option.splits sum.splits)
  moreover have "1 \<le> length (split_response line)"
    unfolding split_response_def by (rule split_on_length)
  ultimately show ?thesis
    by (simp add: split_response_def TrimSpace_Nil TrimSpace_newline)
qed

theorem split_response_never_empty_witness:
  "fst (ReadData \<lparr>conn = \<lparr>conn_closed = False, conn_written = [], conn_incoming = [[CHR 0x0A]]\<rparr>\<rparr>
          ''sensor1'' 0 3600 0) = Inr [[]] \<and>
   1 \<le> length (split_response [CHR 0x0A])"
  using split_response_never_empty
    [of "[CHR 0x0A]" "\<lparr>conn = \<lparr>conn_closed = False, conn_written = [], conn_incoming = [[CHR 0x0A]]\<rparr>\<rparr>"
        "''sensor1''" 0 3600 0]
  by (simp add: ReadData_def conn_Write_def conn_ReadString_def)

section \<open>Lemmas on the floating point arithmetic\<close>

lemma find_exponent_eq:
  assumes "2 powi e \<le> x" "x < 2 powi (e + 1)" "e0 \<le> e" "e - e0 \<le> int n"
  shows "find_exponent n e0 x = e"
  using assms
proof (induction n arbitrary: e0)
  case 0
  then show ?case by simp
next
  case (Suc n)
  show ?case
  proof (cases "2 powi (e0 + 1) \<le> x")
    case True
    have "e0 + 1 \<le> e"
    proof (rule ccontr)
      assume "\<not> e0 + 1 \<le> e"
      then have "e + 1 \<le> e0 + 1" by simp
      then have "(2::real) powi (e + 1) \<le> 2 powi (e0 + 1)"
        by (rule power_int_increasing) simp
      with True Suc.prems(2) show False by simp
    qed
    with Suc True show ?thesis by simp
  next
    case False
    have "e \<le> e0"
    proof (rule ccontr)
      assume "\<not> e \<le> e0"
      then have "e0 + 1 \<le> e" by simp
      then have "(2::real) powi (e0 + 1) \<le> 2 powi e"
        by (rule power_int_increasing) simp
      with False Suc.prems(1) show False by simp
    qed
    with Suc.prems(3) False show ?thesis by simp
  qed
qed

lemma f64_exponent_eq:
  assumes "- 1022 \<le> e" "e \<le> 1023" "2 powi e \<le> \<bar>x\<bar>" "\<bar>x\<bar> < 2 powi (e + 1)"
  shows "f64_exponent x = e"
  unfolding f64_exponent_def using assms
  by (intro find_exponent_eq) simp_all

lemma round_half_even_of_int: "round_half_even (of_int m) = m"
  by (simp add: round_half_even_def)

lemma f64_round_zero: "f64_round 0 = Fin 0"
  by (simp add: f64_round_def round_half_even_def)

lemma f64_round_exact:
  assumes e: "- 1022 \<le> e" "e \<le> 1023" "2 powi e \<le> \<bar>x\<bar>" "\<bar>x\<bar> < 2 powi (e + 1)"
    and m: "\<bar>x\<bar> / 2 powi (e - 52) = of_int m"
  shows "f64_round x = Fin x"
proof -
  have ex: "f64_exponent x = e" using e by (rule f64_exponent_eq)
  have pos: "(0::real) < 2 powi (e - 52)" by simp
  have r: "of_int m * 2 powi (e - 52) = \<bar>x\<bar>"
    using m pos by (simp add: field_simps)
  have "(0::real) < 2 powi e" by simp
  with e(3) have nz: "\<bar>x\<bar> \<noteq> 0" by linarith
  have "(2::real) powi (e + 1) \<le> 2 powi 1024"
    using e(2) by (intro power_int_increasing) simp_all
  then have lt: "\<bar>x\<bar> < 2 ^ 1024" using e(4) by simp
  have "round_half_even (\<bar>x\<bar> / 2 powi (f64_exponent x - 52)) = m"
    by (simp only: ex m round_half_even_of_int)
  then have rr: "of_int (round_half_even (\<bar>x\<bar> / 2 powi (f64_exponent x - 52))) *
      2 powi (f64_exponent x - 52) = \<bar>x\<bar>"
    using r by (simp only: ex)
  have "f64_round x = Fin (if x < 0 then - \<bar>x\<bar> else \<bar>x\<bar>)"
    unfolding f64_round_def Let_def rr using lt nz by simp
  then show ?thesis by simp
qed

lemma ex_round: "f64_round 10 = Fin 10" "f64_round 20 = Fin 20" "f64_round 30 = Fin 30" 
  "f64_round 15 = Fin 15" "f64_round 2 = Fin 2" "f64_round (51 / 2) = Fin (51 / 2)"
proof -
  show "f64_round 10 = Fin 10"
    by (rule f64_round_exact[where e = 3 and m = "10 * 2 ^ 49"]) simp_all
  show "f64_round 20 = Fin 20"
    by (rule f64_round_exact[where e = 4 and m = "20 * 2 ^ 48"]) simp_all
  show "f64_round 30 = Fin 30"
    by (rule f64_round_exact[where e = 4 and m = "30 * 2 ^ 48"]) simp_all
  show "f64_round 15 = Fin 15"
    by (rule f64_round_exact[where e = 3 and m = "15 * 2 ^ 49"]) simp_all
  show "f64_round 2 = Fin 2"
    by (rule f64_round_exact[where e = 1 and m = "2 * 2 ^ 51"]) simp_all
  show "f64_round (51 / 2) = Fin (51 / 2)"
    by (rule f64_round_exact[where e = 4 and m = "51 * 2 ^ 47"]) simp_all
qed

section \<open>The latest measurement\<close>

lemma ReadData_open:
  assumes "\<not> conn_closed (conn c)"
    and "read_string [] (conn_incoming (conn c)) = Some (response, rest)"
  shows "fst (ReadData c key startTime endTime downsampling) = Inr (split_response response)"
  using assms by (simp add: ReadData_def conn_Write_def conn_ReadString_def)

lemma ReadData_nonempty:
  "fst (ReadData c key startTime endTime downsampling) \<noteq> Inr []"
  by (auto simp: ReadData_def split_response_def split_on_nonempty
      split: prod.splits option.splits sum.splits)

lemma GetLatestMeasurement_data:
  "fst (GetLatestMeasurement pf now c sensorID) =
     (case fst (ReadData c sensorID (now - 3600) now 0) of
        Inl err \<Rightarrow> Inl err
      | Inr data \<Rightarrow> latest_of_data pf sensorID data)"
  by (simp add: GetLatestMeasurement_def Let_def split: prod.splits sum.splits)

lemma ReadData_error: "fst (ReadData c key startTime endTime downsampling) \<noteq> Inl (NoDataError x)"
  by (auto simp: ReadData_def conn_Write_def conn_ReadString_def
      split: prod.splits option.splits sum.splits if_splits)

lemma latest_of_data_no_data:
  "(latest_of_data pf sensorID data = Inl (NoDataError x)) = (data = [] \<and> x = sensorID)"
  by (auto simp: latest_of_data_def Let_def split: option.splits)

text \<open>
  C3 does not hold of the code. The claim is that an empty response set makes
  \<^verbatim>\<open>GetLatestMeasurement\<close> fail with the no-data error. The operation has the guard
  for it (\<^verbatim>\<open>len(data) == 0\<close>), but \<^verbatim>\<open>ReadData\<close> never returns an empty list, so the
  guard never fires: whatever the connection holds, the operation does not return
  the no-data error, and when the server answers with an empty line the operation
  fails with the invalid-format error instead.
\<close>

theorem latest_never_no_data:
  "fst (GetLatestMeasurement pf now c sensorID) \<noteq> Inl (NoDataError x) \<and>
   fst (GetLatestMeasurement pf now
          \<lparr>conn = \<lparr>conn_closed = False, conn_written = [], conn_incoming = [''\<newline>'']\<rparr>\<rparr>
          sensorID) = Inl InvalidDataFormat"
proof -
  have "fst (GetLatestMeasurement pf now c sensorID) \<noteq> Inl (NoDataError x)"
  proof (cases "fst (ReadData c sensorID (now - 3600) now 0)")
    case (Inl err)
    with ReadData_error[of c sensorID "now - 3600" now 0 x] show ?thesis
      by (simp add: GetLatestMeasurement_data)
  next
    case (Inr data)
    with ReadData_nonempty[of c sensorID "now - 3600" now 0] have "data \<noteq> []" by auto
    with Inr show ?thesis
      by (simp add: GetLatestMeasurement_data latest_of_data_no_data)
  qed
  moreover have "fst (GetLatestMeasurement pf now
          \<lparr>conn = \<lparr>conn_closed = False, conn_written = [], conn_incoming = [''\<newline>'']\<rparr>\<rparr>
          sensorID) = Inl InvalidDataFormat"
    by (simp add: GetLatestMeasurement_data ReadData_open split_response_def TrimSpace_newline
        latest_of_data_def)
  ultimately show ?thesis by simp
qed

section \<open>The average of the valid records\<close>

lemma average_loop_eq:
  "average_loop pf (sm, count) data =
     (foldl f64_add sm (valid_values pf data), count + int (length (valid_values pf data)))"
  by (induction data arbitrary: sm count) (auto simp: valid_values_def Let_def split: option.splits)

lemma average_of_data_eq:
  "average_of_data pf sensorID data =
     (if data = [] then Inl (NoDataError sensorID)
      else if valid_values pf data = [] then Inl NoValidMeasurements
      else Inr (f64_div (foldl f64_add (Fin 0) (valid_values pf data))
                        (f64_of_int (int (length (valid_values pf data))))))"
  by (simp add: average_of_data_def average_loop_eq)

lemma split_on_three:
  assumes "c \<notin> set k" "c \<notin> set t" "c \<notin> set v"
  shows "split_on c (k @ c # t @ c # v) = [k, t, v]"
  using assms by (simp add: split_on_first split_on_absent)

lemma GetAverageMeasurement_data:
  "fst (GetAverageMeasurement pf now c sensorID durationSeconds) =
     (case fst (ReadData c sensorID (now - durationSeconds) now 0) of
        Inl err \<Rightarrow> Inl err
      | Inr data \<Rightarrow> average_of_data pf sensorID data)"
  by (simp add: GetAverageMeasurement_def Let_def split: prod.splits sum.splits)

text \<open>
  C5 does not hold of the code. The claim tells the failure for a response whose
  records are all malformed from the no-data failure for an empty response. The
  operation has both branches, but \<^verbatim>\<open>ReadData\<close> never returns an empty list, so the
  no-data guard never fires: whatever the connection holds, \<^verbatim>\<open>GetAverageMeasurement\<close>
  does not return the no-data error, and an empty response line fails with the same
  no-valid-measurements error as a line of malformed records.
\<close>

theorem average_never_no_data:
  "fst (GetAverageMeasurement pf now c sensorID durationSeconds) \<noteq> Inl (NoDataError x) \<and>
   fst (GetAverageMeasurement pf now
          \<lparr>conn = \<lparr>conn_closed = False, conn_written = [], conn_incoming = [''\<newline>'']\<rparr>\<rparr>
          sensorID durationSeconds) = Inl NoValidMeasurements \<and>
   fst (GetAverageMeasurement pf now
          \<lparr>conn = \<lparr>conn_closed = False, conn_written = [], conn_incoming = [''garbage\<newline>'']\<rparr>\<rparr>
          sensorID durationSeconds) = Inl NoValidMeasurements"
proof -
  have "fst (GetAverageMeasurement pf now c sensorID durationSeconds) \<noteq> Inl (NoDataError x)"
  proof (cases "fst (ReadData c sensorID (now - durationSeconds) now 0)")
    case (Inl err)
    with ReadData_error[of c sensorID "now - durationSeconds" now 0 x] show ?thesis
      by (simp add: GetAverageMeasurement_data)
  next
    case (Inr data)
    with ReadData_nonempty[of c sensorID "now - durationSeconds" now 0] have "data \<noteq> []" by auto
    with Inr show ?thesis
      by (simp add: GetAverageMeasurement_data average_of_data_eq)
  qed
  moreover have "TrimSpace ''garbage\<newline>'' = ''garbage''" by code_simp
  ultimately show ?thesis
    by (simp add: GetAverageMeasurement_data ReadData_open split_response_def TrimSpace_newline
        average_of_data_eq valid_values_def)
qed

lemma ex_round_more: "f64_round 1 = Fin 1" "f64_round 3 = Fin 3"
  "f64_round (2 / 3) = Fin (6004799503160661 / 9007199254740992)"
proof -
  show "f64_round 1 = Fin 1"
    by (rule f64_round_exact[where e = 0 and m = "2 ^ 52"]) simp_all
  show "f64_round 3 = Fin 3"
    by (rule f64_round_exact[where e = 1 and m = "3 * 2 ^ 51"]) simp_all
  have "f64_exponent (2 / 3) = - 1"
    by (rule f64_exponent_eq) simp_all
  then show "f64_round (2 / 3) = Fin (6004799503160661 / 9007199254740992)"
    by (simp add: f64_round_def round_half_even_def Let_def)
qed

lemma ex_ParseFloat: "ParseFloat_plain ''10'' = Some (Fin 10)" "ParseFloat_plain ''20'' = Some (Fin 20)"
  "ParseFloat_plain ''1'' = Some (Fin 1)" "ParseFloat_plain ''0'' = Some (Fin 0)"
  "ParseFloat_plain ''2.00'' = Some (Fin 2)" "ParseFloat_plain ''0.00'' = Some (Fin 0)"
  "ParseFloat_plain ''25.50'' = Some (Fin (51 / 2))"
  by (simp_all add: ParseFloat_plain_def plain_unsigned_def is_digit_def digit_val_def
      ex_round ex_round_more f64_round_zero)

lemma ex_trim_avg:
  "TrimSpace ''sensor1,1700000000,10|garbage|sensor1,1700000060,20\<newline>'' =
     ''sensor1,1700000000,10|garbage|sensor1,1700000060,20''"
  "TrimSpace ''a,1,1|a,2,1|a,3,0\<newline>'' = ''a,1,1|a,2,1|a,3,0''"
  by code_simp+

text \<open>
  C4. When \<^verbatim>\<open>ReadData\<close> succeeds and some record of the response is valid,
  \<^verbatim>\<open>GetAverageMeasurement\<close> returns the \<^verbatim>\<open>float64\<close> sum of the values of the valid
  records, added in the order of the response starting from 0, divided by their
  number; the other records do not count, and when no record is valid the operation
  fails. Over a response of exactly two records whose values are "10" and "20" the
  result is exactly 15.
\<close>

theorem average_is_mean_of_valid:
  assumes "\<not> conn_closed (conn c)"
    and "read_string [] (conn_incoming (conn c)) = Some (response, rest)"
  shows "fst (GetAverageMeasurement pf now c sensorID durationSeconds) =
           (if valid_values pf (split_response response) = [] then Inl NoValidMeasurements
            else Inr (f64_div (foldl f64_add (Fin 0) (valid_values pf (split_response response)))
                              (f64_of_int (int (length (valid_values pf (split_response response))))))) \<and>
         (pf ''10'' = Some (Fin 10) \<and> pf ''20'' = Some (Fin 20) \<and>
          CHR '','' \<notin> set k1 \<and> CHR '','' \<notin> set t1 \<and> CHR '','' \<notin> set k2 \<and> CHR '','' \<notin> set t2 \<and>
          split_response response =
            [k1 @ CHR '','' # t1 @ CHR '','' # ''10'', k2 @ CHR '','' # t2 @ CHR '','' # ''20''] \<longrightarrow>
          fst (GetAverageMeasurement pf now c sensorID durationSeconds) = Inr (Fin 15))"
proof -
  have rd: "fst (ReadData c sensorID (now - durationSeconds) now 0) = Inr (split_response response)"
    using assms by (rule ReadData_open)
  have ne: "split_response response \<noteq> []"
    by (simp add: split_response_def split_on_nonempty)
  have a: "fst (GetAverageMeasurement pf now c sensorID durationSeconds) =
           (if valid_values pf (split_response response) = [] then Inl NoValidMeasurements
            else Inr (f64_div (foldl f64_add (Fin 0) (valid_values pf (split_response response)))
                              (f64_of_int (int (length (valid_values pf (split_response response)))))))"
    by (simp add: GetAverageMeasurement_data rd average_of_data_eq ne)
  have b: "fst (GetAverageMeasurement pf now c sensorID durationSeconds) = Inr (Fin 15)"
    if "pf ''10'' = Some (Fin 10)" "pf ''20'' = Some (Fin 20)"
      "CHR '','' \<notin> set k1" "CHR '','' \<notin> set t1" "CHR '','' \<notin> set k2" "CHR '','' \<notin> set t2"
      "split_response response =
         [k1 @ CHR '','' # t1 @ CHR '','' # ''10'', k2 @ CHR '','' # t2 @ CHR '','' # ''20'']"
  proof -
    have v: "valid_values pf (split_response response) = [Fin 10, Fin 20]"
      using that by (simp add: valid_values_def split_on_three)
    have "f64_div (foldl f64_add (Fin 0) [Fin 10, Fin 20]) (f64_of_int 2) = Fin 15"
      by (simp add: f64_div_def f64_of_int_def ex_round)
    with a v show ?thesis by simp
  qed
  from a b show ?thesis by blast
qed

theorem average_is_mean_of_valid_witness:
  "fst (GetAverageMeasurement ParseFloat_plain 1700003600
          \<lparr>conn = \<lparr>conn_closed = False, conn_written = [],
                   conn_incoming = [''sensor1,1700000000,10|garbage|sensor1,1700000060,20\<newline>'']\<rparr>\<rparr>
          ''sensor1'' 3600) = Inr (Fin 15) \<and>
   fst (GetAverageMeasurement ParseFloat_plain 1700003600
          \<lparr>conn = \<lparr>conn_closed = False, conn_written = [],
                   conn_incoming = [''a,1,1|a,2,1|a,3,0\<newline>'']\<rparr>\<rparr>
          ''a'' 3600) = Inr (Fin (6004799503160661 / 9007199254740992))"
proof -
  have v1: "valid_values ParseFloat_plain
      (split_response ''sensor1,1700000000,10|garbage|sensor1,1700000060,20\<newline>'') = [Fin 10, Fin 20]"
    by (simp add: split_response_def ex_trim_avg valid_values_def ex_ParseFloat)
  have v2: "valid_values ParseFloat_plain (split_response ''a,1,1|a,2,1|a,3,0\<newline>'') =
      [Fin 1, Fin 1, Fin 0]"
    by (simp add: split_response_def ex_trim_avg valid_values_def ex_ParseFloat)
  show ?thesis
    using average_is_mean_of_valid[of
        "\<lparr>conn = \<lparr>conn_closed = False, conn_written = [],
                 conn_incoming = [''sensor1,1700000000,10|garbage|sensor1,1700000060,20\<newline>'']\<rparr>\<rparr>"
        "''sensor1,1700000000,10|garbage|sensor1,1700000060,20\<newline>''" "[]"
        ParseFloat_plain 1700003600 "''sensor1''" 3600]
      average_is_mean_of_valid[of
        "\<lparr>conn = \<lparr>conn_closed = False, conn_written = [],
                 conn_incoming = [''a,1,1|a,2,1|a,3,0\<newline>'']\<rparr>\<rparr>"
        "''a,1,1|a,2,1|a,3,0\<newline>''" "[]"
        ParseFloat_plain 1700003600 "''a''" 3600]
    by (simp add: v1 v2 f64_div_def f64_of_int_def ex_round ex_round_more)
qed

section \<open>The downsampling of the history query\<close>

lemma conn_ReadString_written: "conn_written (snd (conn_ReadString cn)) = conn_written cn"
  by (simp add: conn_ReadString_def split: option.splits prod.splits)

lemma ReadData_written:
  "conn_written (conn (snd (ReadData c key startTime endTime downsampling))) =
     (if conn_closed (conn c) then conn_written (conn c)
      else conn_written (conn c) @ [encodeQuery key startTime endTime downsampling])"
proof (cases "conn_closed (conn c)")
  case True
  then show ?thesis by (simp add: ReadData_def conn_Write_def)
next
  case False
  let ?cn = "(conn c)\<lparr>conn_written := conn_written (conn c) @ [encodeQuery key startTime endTime downsampling]\<rparr>"
  have "conn_written (snd (conn_ReadString ?cn)) = conn_written ?cn"
    by (rule conn_ReadString_written)
  with False show ?thesis
    by (auto simp: ReadData_def conn_Write_def split: prod.splits sum.splits)
qed

lemma showNat_zero: "showNat n = ''0'' \<Longrightarrow> n = 0"
proof -
  assume "showNat n = ''0''"
  then have "parse_digits 0 (showNat n) = parse_digits 0 ''0''" by simp
  then show "n = 0" by (simp add: parse_digits_showNat is_digit_def digit_val_def)
qed

lemma showInt_positive: "1 \<le> i \<Longrightarrow> showInt i \<noteq> ''0''"
  using showNat_zero[of "nat i"] by (auto simp: showInt_def)

text \<open>
  C6. On an open connection \<^verbatim>\<open>GetMeasurementHistory\<close> writes one query line, whose
  last field is the decimal text of \<open>max 1 intervalSeconds\<close>; that number is at least
  1 and its text is never "0". With \<open>intervalSeconds = 0\<close> the field is "1".
\<close>

theorem history_downsampling:
  "conn_written (conn (snd (GetMeasurementHistory pf c sensorID startTime endTime intervalSeconds))) =
     (if conn_closed (conn c) then conn_written (conn c)
      else conn_written (conn c) @
             [sensorID @ '','' @ showInt startTime @ '','' @ showInt endTime @ '','' @
              showInt (max 1 intervalSeconds) @ [CHR 0x0A]]) \<and>
   1 \<le> max 1 intervalSeconds \<and>
   showInt (max 1 intervalSeconds) \<noteq> ''0''"
proof -
  have m: "(if intervalSeconds < 1 then 1 else intervalSeconds) = max 1 intervalSeconds"
    by auto
  have "conn_written (conn (snd (GetMeasurementHistory pf c sensorID startTime endTime intervalSeconds))) =
     conn_written (conn (snd (ReadData c sensorID startTime endTime (max 1 intervalSeconds))))"
    unfolding GetMeasurementHistory_def Let_def m
    by (simp split: prod.splits sum.splits)
  then show ?thesis
    by (simp add: ReadData_written encodeQuery_def showInt_positive)
qed

theorem history_downsampling_witness:
  "conn_written (conn (snd (GetMeasurementHistory ParseFloat_plain
      \<lparr>conn = \<lparr>conn_closed = False, conn_written = [], conn_incoming = []\<rparr>\<rparr>
      ''sensor1'' 100 200 0)))
   = [''sensor1,100,200,1'' @ [CHR 0x0A]]"
proof -
  have "showInt 100 = ''100''" "showInt 200 = ''200''" "showInt 1 = ''1''"
    by (simp_all add: showInt_def showNat.simps digit_char_def)
  then show ?thesis
    using history_downsampling[of ParseFloat_plain
      "\<lparr>conn = \<lparr>conn_closed = False, conn_written = [], conn_incoming = []\<rparr>\<rparr>"
      "''sensor1''" 100 200 0]
    by simp
qed

section \<open>Writing a point and reading it back\<close>

lemma take_across_separator:
  assumes "c \<notin> set r"
  shows "(take (length r) (k @ c # rest) = r) = (take (length r) k = r)"
proof (cases "length r \<le> length k")
  case True
  then show ?thesis by simp
next
  case False
  then obtain m where m: "length r - length k = Suc m"
    by (cases "length r - length k") auto
  have "take (length r) (k @ c # rest) = k @ c # take m rest"
    using False m by simp
  then have mem: "c \<in> set (take (length r) (k @ c # rest))"
    by (simp only: set_append set_simps) simp
  have a: "take (length r) (k @ c # rest) \<noteq> r"
  proof
    assume "take (length r) (k @ c # rest) = r"
    with mem have "c \<in> set r" by (simp only:)
    with assms show False by simp
  qed
  have "length (take (length r) k) = length k" using False by simp
  then have b: "take (length r) k \<noteq> r" using False by auto
  from a b show ?thesis by simp
qed

lemma comma_not_in_rune: "r \<in> set space_runes \<Longrightarrow> CHR '','' \<notin> set r"
  by (auto simp: space_runes_def)

lemma space_prefix_len_zero_iff:
  "(space_prefix_len s = 0) = (find (\<lambda>r. take (length r) s = r) space_runes = None)"
proof (cases "find (\<lambda>r. take (length r) s = r) space_runes")
  case None
  then show ?thesis by (simp add: space_prefix_len_def)
next
  case (Some r)
  then have "r \<in> set space_runes" by (auto simp: find_Some_iff)
  then have "r \<noteq> []" by (rule space_runes_nonempty)
  with Some show ?thesis by (simp add: space_prefix_len_def)
qed

lemma space_suffix_len_zero_iff:
  "(space_suffix_len s = 0) = (find (\<lambda>r. take (length r) (rev s) = rev r) space_runes = None)"
proof (cases "find (\<lambda>r. take (length r) (rev s) = rev r) space_runes")
  case None
  then show ?thesis by (simp add: space_suffix_len_def)
next
  case (Some r)
  then have "r \<in> set space_runes" by (auto simp: find_Some_iff)
  then have "r \<noteq> []" by (rule space_runes_nonempty)
  with Some show ?thesis by (simp add: space_suffix_len_def)
qed


lemma space_prefix_len_comma:
  "space_prefix_len (k @ CHR '','' # rest) = 0 \<longleftrightarrow> space_prefix_len k = 0"
  by (simp add: space_prefix_len_zero_iff find_None_iff take_across_separator comma_not_in_rune
      del: take_append)

lemma trim_left_key:
  "space_prefix_len k = 0 \<Longrightarrow> trim_left (k @ CHR '','' # rest) = k @ CHR '','' # rest"
  by (subst trim_left.simps) (simp add: space_prefix_len_comma)



lemma space_suffix_len_plain:
  assumes "\<forall>r \<in> set space_runes. last r \<noteq> d"
  shows "space_suffix_len (xs @ [d]) = 0"
proof -
  have "take (length r) (rev (xs @ [d])) \<noteq> rev r" if "r \<in> set space_runes" for r
  proof
    assume eq: "take (length r) (rev (xs @ [d])) = rev r"
    have ne: "r \<noteq> []" using that by (rule space_runes_nonempty)
    then have "hd (rev r) = last r" by (simp add: hd_rev)
    moreover have "hd (take (length r) (rev (xs @ [d]))) = d"
      using ne by (cases r) auto
    ultimately have "last r = d" using eq by simp
    with assms that show False by blast
  qed
  then show ?thesis
    by (simp add: space_suffix_len_zero_iff find_None_iff)
qed

lemma trim_right_plain:
  "\<forall>r \<in> set space_runes. last r \<noteq> d \<Longrightarrow> trim_right (xs @ [d]) = xs @ [d]"
  by (subst trim_right.simps) (simp add: space_suffix_len_plain)

lemma rune_last_not_digit: "is_digit d \<Longrightarrow> \<forall>r \<in> set space_runes. last r \<noteq> d"
  by (auto simp: space_runes_def is_digit_def)

lemma rune_last_not_letter:
  "\<forall>r \<in> set space_runes. last r \<noteq> CHR ''f''" "\<forall>r \<in> set space_runes. last r \<noteq> CHR ''N''"
  by (auto simp: space_runes_def)

lemma showInt_chars: "c \<in> set (showInt i) \<Longrightarrow> c = CHR ''-'' \<or> is_digit c"
  by (auto simp: showInt_def showNat_digits split: if_splits)

lemma fmt_2f_chars: "c \<in> set (fmt_2f x) \<Longrightarrow> c = CHR ''-'' \<or> c = CHR ''.'' \<or> is_digit c"
proof -
  have "n div 10 mod 10 < 10" "n mod 10 < 10" for n :: nat by simp_all
  then have "is_digit (digit_char (n div 10 mod 10))" "is_digit (digit_char (n mod 10))" for n :: nat
    by (simp_all add: digit_char_props)
  moreover assume "c \<in> set (fmt_2f x)"
  ultimately show ?thesis
    by (auto simp: fmt_2f_def Let_def showNat_digits split: if_splits)
qed

lemma fmt_2f_last: "\<exists>pre d. fmt_2f x = pre @ [d] \<and> is_digit d"
proof -
  let ?n = "nat (round_half_even (\<bar>x\<bar> * 100))"
  have "?n mod 10 < 10" by simp
  then have "is_digit (digit_char (?n mod 10))" by (rule digit_char_props)
  moreover have "fmt_2f x = ((if x < 0 then [CHR ''-''] else []) @ showNat (?n div 100) @ [CHR ''.''] @
         [digit_char (?n div 10 mod 10)]) @ [digit_char (?n mod 10)]"
    by (simp add: fmt_2f_def Let_def)
  ultimately show ?thesis by blast
qed

lemma fmt_f64_last: "\<exists>pre d. fmt_f64 a = pre @ [d] \<and> (\<forall>r \<in> set space_runes. last r \<noteq> d)"
proof (cases a)
  case (Fin x)
  obtain pre d where "fmt_2f x = pre @ [d]" "is_digit d" using fmt_2f_last by blast
  with Fin rune_last_not_digit show ?thesis by (auto simp: fmt_f64_def)
next
  case NegZero
  have "fmt_f64 NegZero = ''-0.0'' @ [CHR ''0'']" "is_digit (CHR ''0'')"
    by (simp_all add: fmt_f64_def is_digit_def)
  with NegZero rune_last_not_digit show ?thesis by blast
next
  case PosInf
  have "fmt_f64 PosInf = ''+In'' @ [CHR ''f'']" by (simp add: fmt_f64_def)
  with PosInf rune_last_not_letter(1) show ?thesis by blast
next
  case NegInf
  have "fmt_f64 NegInf = ''-In'' @ [CHR ''f'']" by (simp add: fmt_f64_def)
  with NegInf rune_last_not_letter(1) show ?thesis by blast
next
  case NaN64
  have "fmt_f64 NaN64 = ''Na'' @ [CHR ''N'']" by (simp add: fmt_f64_def)
  with NaN64 rune_last_not_letter(2) show ?thesis by blast
qed

lemma no_sep_showInt:
  "CHR '','' \<notin> set (showInt i)" "CHR ''|'' \<notin> set (showInt i)" "CHR 0x0A \<notin> set (showInt i)"
  using showInt_chars[of "CHR '',''" i] showInt_chars[of "CHR ''|''" i] showInt_chars[of "CHR 0x0A" i]
  by (auto simp: is_digit_def)

lemma no_sep_fmt_2f:
  "CHR '','' \<notin> set (fmt_2f x)" "CHR ''|'' \<notin> set (fmt_2f x)" "CHR 0x0A \<notin> set (fmt_2f x)"
  using fmt_2f_chars[of "CHR '',''" x] fmt_2f_chars[of "CHR ''|''" x] fmt_2f_chars[of "CHR 0x0A" x]
  by (auto simp: is_digit_def)

lemma no_sep_fmt_f64:
  "CHR '','' \<notin> set (fmt_f64 a)" "CHR ''|'' \<notin> set (fmt_f64 a)" "CHR 0x0A \<notin> set (fmt_f64 a)"
  by (cases a; simp add: fmt_f64_def no_sep_fmt_2f)+

lemma read_string_one_line:
  "CHR 0x0A \<notin> set body \<Longrightarrow> read_string [] [body @ [CHR 0x0A]] = Some (body @ [CHR 0x0A], [])"
  by (induction body) auto

lemma history_loop_decode:
  "history_loop pf history data =
     history @ map (\<lambda>(key, timestamp, val). \<lparr>Timestamp = timestamp, Value = val\<rparr>)
                   (decode_records pf data)"
  by (induction data arbitrary: history) (auto simp: Let_def split: option.splits)

lemma GetMeasurementHistory_data:
  "fst (GetMeasurementHistory pf c sensorID startTime endTime intervalSeconds) =
     (case fst (ReadData c sensorID startTime endTime
                  (if intervalSeconds < 1 then 1 else intervalSeconds)) of
        Inl err \<Rightarrow> Inl err
      | Inr data \<Rightarrow> Inr (history_loop pf [] data))"
  by (simp add: GetMeasurementHistory_def Let_def split: prod.splits sum.splits)

lemma ex_fmt: "fmt_2f 2 = ''2.00''" "fmt_2f (1 / 1024) = ''0.00''" "fmt_2f (51 / 2) = ''25.50''"
  by (simp_all add: fmt_2f_def round_half_even_def showNat.simps digit_char_def Let_def)

lemma ex_showInt: "showInt 1 = ''1''" "showInt 1700000000 = ''1700000000''"
  by (simp_all add: showInt_def showNat.simps digit_char_def)

lemma ex_trim:
  "TrimSpace ''a|b,1,2.00\<newline>'' = ''a|b,1,2.00''"
  "TrimSpace ''k,1,0.00\<newline>'' = ''k,1,0.00''"
  "TrimSpace '' k,1,2.00\<newline>'' = ''k,1,2.00''"
  by code_simp+

lemma ex_ParseInt: "ParseInt ''1'' = Some 1"
  by (simp add: ParseInt_def is_digit_def digit_val_def)

text \<open>
  C2, as the specification states it, fails: the line that \<^verbatim>\<open>WriteData\<close> formats does
  not always decode to the triple it was made from. A vertical bar in the key splits
  the line into two records; the value is written with two decimals only; white space
  at the start of the key is trimmed away.
\<close>

theorem write_line_round_trip_fails:
  "decodeQueryResponse ParseFloat_plain (encodeWrite ''a|b'' 1 (Fin 2)) = Inr [(''b'', 1, Fin 2)] \<and>
   decodeQueryResponse ParseFloat_plain (encodeWrite ''a|b'' 1 (Fin 2)) \<noteq> Inr [(''a|b'', 1, Fin 2)] \<and>
   decodeQueryResponse ParseFloat_plain (encodeWrite ''k'' 1 (Fin (1 / 1024))) = Inr [(''k'', 1, Fin 0)] \<and>
   decodeQueryResponse ParseFloat_plain (encodeWrite ''k'' 1 (Fin (1 / 1024))) \<noteq>
     Inr [(''k'', 1, Fin (1 / 1024))] \<and>
   decodeQueryResponse ParseFloat_plain (encodeWrite '' k'' 1 (Fin 2)) = Inr [(''k'', 1, Fin 2)] \<and>
   decodeQueryResponse ParseFloat_plain (encodeWrite '' k'' 1 (Fin 2)) \<noteq> Inr [('' k'', 1, Fin 2)]"
proof -
  have a: "decodeQueryResponse ParseFloat_plain (encodeWrite ''a|b'' 1 (Fin 2)) = Inr [(''b'', 1, Fin 2)]"
    by (simp add: decodeQueryResponse_def split_response_def encodeWrite_def fmt_f64_def
        ex_fmt ex_showInt ex_trim ex_ParseInt ex_ParseFloat)
  have b: "decodeQueryResponse ParseFloat_plain (encodeWrite ''k'' 1 (Fin (1 / 1024))) =
      Inr [(''k'', 1, Fin 0)]"
    by (simp add: decodeQueryResponse_def split_response_def encodeWrite_def fmt_f64_def
        ex_fmt ex_showInt ex_trim ex_ParseInt ex_ParseFloat)
  have c: "decodeQueryResponse ParseFloat_plain (encodeWrite '' k'' 1 (Fin 2)) = Inr [(''k'', 1, Fin 2)]"
    by (simp add: decodeQueryResponse_def split_response_def encodeWrite_def fmt_f64_def
        ex_fmt ex_showInt ex_trim ex_ParseInt ex_ParseFloat)
  show ?thesis
    by (simp add: a b c)
qed

text \<open>
  C2, amended. For a key without comma, newline and vertical bar that does not start
  with white space, a timestamp in the range of \<^verbatim>\<open>int64\<close>, and a value that
  \<^verbatim>\<open>ParseFloat\<close> reads back from its two-decimal text, decoding the line formatted by
  \<^verbatim>\<open>WriteData\<close> gives exactly the one triple (key, timestamp, value);
  \<^verbatim>\<open>GetMeasurementHistory\<close>, when that line is the response, returns the one entry
  with that timestamp and value; and that line is what \<^verbatim>\<open>WriteData\<close> writes on an
  open connection.
\<close>

theorem write_line_round_trip:
  assumes key: "CHR '','' \<notin> set key" "CHR 0x0A \<notin> set key" "CHR ''|'' \<notin> set key"
      "space_prefix_len key = 0"
    and ts: "- (2 ^ 63) \<le> timestamp" "timestamp < 2 ^ 63"
    and val: "pf (fmt_f64 val) = Some val"
  shows "decodeQueryResponse pf (encodeWrite key timestamp val) = Inr [(key, timestamp, val)] \<and>
         fst (GetMeasurementHistory pf
                \<lparr>conn = \<lparr>conn_closed = False, conn_written = written,
                         conn_incoming = [encodeWrite key timestamp val]\<rparr>\<rparr>
                sensorID startTime endTime intervalSeconds) =
           Inr [\<lparr>Timestamp = timestamp, Value = val\<rparr>] \<and>
         conn_written (conn (snd (WriteData c key timestamp val))) =
           (if conn_closed (conn c) then conn_written (conn c)
            else conn_written (conn c) @ [encodeWrite key timestamp val])"
proof -
  let ?body = "key @ CHR '','' # showInt timestamp @ CHR '','' # fmt_f64 val"
  obtain pre d where pd: "fmt_f64 val = pre @ [d]" "\<forall>r \<in> set space_runes. last r \<noteq> d"
    using fmt_f64_last by blast
  have enc: "encodeWrite key timestamp val = ?body @ [CHR 0x0A]"
    by (simp add: encodeWrite_def)
  have "CHR 0x0A \<notin> set ?body"
    using key(2) no_sep_showInt(3) no_sep_fmt_f64(3) by simp
  then have rs: "read_string [] [encodeWrite key timestamp val] = Some (?body @ [CHR 0x0A], [])"
    unfolding enc by (rule read_string_one_line)
  have "trim_left (?body @ [CHR 0x0A]) = ?body @ [CHR 0x0A]"
    using trim_left_key[OF key(4), of "showInt timestamp @ CHR '','' # fmt_f64 val @ [CHR 0x0A]"]
    by simp
  moreover have "trim_right (?body @ [CHR 0x0A]) = trim_right ?body"
    by (rule trim_right_newline)
  moreover have "trim_right ?body = ?body"
    using trim_right_plain[OF pd(2), of "key @ CHR '','' # showInt timestamp @ CHR '','' # pre"]
    by (simp add: pd(1))
  ultimately have trim: "TrimSpace (?body @ [CHR 0x0A]) = ?body"
    by (simp only: TrimSpace_def)
  have "CHR ''|'' \<notin> set ?body"
    using key(3) no_sep_showInt(2) no_sep_fmt_f64(2) by simp
  then have "split_on (CHR ''|'') ?body = [?body]"
    by (rule split_on_absent)
  then have rec: "split_response (?body @ [CHR 0x0A]) = [?body]"
    by (simp only: split_response_def trim)
  have parts: "split_on (CHR '','') ?body = [key, showInt timestamp, fmt_f64 val]"
    using key(1) no_sep_showInt(1) no_sep_fmt_f64(1) by (rule split_on_three)
  have dec: "decode_records pf [?body] = [(key, timestamp, val)]"
    by (simp add: parts ParseInt_showInt[OF ts] val del: split_on.simps)
  have "decodeQueryResponse pf (encodeWrite key timestamp val) = Inr [(key, timestamp, val)]"
    by (simp only: decodeQueryResponse_def rs rec dec option.case prod.case)
  moreover have "fst (GetMeasurementHistory pf
                \<lparr>conn = \<lparr>conn_closed = False, conn_written = written,
                         conn_incoming = [encodeWrite key timestamp val]\<rparr>\<rparr>
                sensorID startTime endTime intervalSeconds) =
           Inr [\<lparr>Timestamp = timestamp, Value = val\<rparr>]"
  proof -
    have "fst (ReadData \<lparr>conn = \<lparr>conn_closed = False, conn_written = written,
                         conn_incoming = [encodeWrite key timestamp val]\<rparr>\<rparr>
                sensorID startTime endTime (if intervalSeconds < 1 then 1 else intervalSeconds)) =
          Inr (split_response (?body @ [CHR 0x0A]))"
      by (rule ReadData_open) (simp_all only: rs TSDBClient.simps net_conn.simps, simp)
    then show ?thesis
      by (simp only: GetMeasurementHistory_data rec sum.case history_loop_decode dec) simp
  qed
  moreover have "conn_written (conn (snd (WriteData c key timestamp val))) =
           (if conn_closed (conn c) then conn_written (conn c)
            else conn_written (conn c) @ [encodeWrite key timestamp val])"
    by (simp add: WriteData_def conn_Write_def)
  ultimately show ?thesis by simp
qed

theorem write_line_round_trip_witness:
  "decodeQueryResponse ParseFloat_plain (encodeWrite ''sensor1'' 1700000000 (Fin (51 / 2))) =
     Inr [(''sensor1'', 1700000000, Fin (51 / 2))] \<and>
   fst (GetMeasurementHistory ParseFloat_plain
          \<lparr>conn = \<lparr>conn_closed = False, conn_written = [],
                   conn_incoming = [encodeWrite ''sensor1'' 1700000000 (Fin (51 / 2))]\<rparr>\<rparr>
          ''sensor1'' 1699999000 1700001000 0) =
     Inr [\<lparr>Timestamp = 1700000000, Value = Fin (51 / 2)\<rparr>]"
proof -
  have "space_prefix_len ''sensor1'' = 0"
    by (simp add: space_prefix_len_def space_runes_def)
  moreover have "ParseFloat_plain (fmt_f64 (Fin (51 / 2))) = Some (Fin (51 / 2))"
    by (simp add: fmt_f64_def ex_fmt ex_ParseFloat)
  ultimately show ?thesis
    using write_line_round_trip[of "''sensor1''" 1700000000 ParseFloat_plain "Fin (51 / 2)"
        "[]" "''sensor1''" 1699999000 1700001000 0]
    by simp
qed

section \<open>Closing the connection\<close>

text \<open>
  C8, as the specification states it, fails for the Go driver: \<^verbatim>\<open>Close\<close> keeps no
  state of its own and has no guard, so the second \<^verbatim>\<open>Close\<close> of a client returns the
  error of the runtime for a connection that is closed already.
\<close>

theorem close_twice_fails:
  "fst (Close \<lparr>conn = \<lparr>conn_closed = False, conn_written = [], conn_incoming = []\<rparr>\<rparr>) = None \<and>
   fst (Close (snd (Close \<lparr>conn = \<lparr>conn_closed = False, conn_written = [], conn_incoming = []\<rparr>\<rparr>)))
     = Some ErrClosed"
  by (simp add: Close_def conn_Close_def)

text \<open>
  C8, amended. \<^verbatim>\<open>Close\<close> hands on what the connection's own \<^verbatim>\<open>Close\<close> returns: on an
  open connection it succeeds, on a closed one it returns the runtime's error and
  changes nothing; after any \<^verbatim>\<open>Close\<close> the connection is closed, and it succeeds
  exactly when the connection was open.
\<close>

theorem close_result:
  "Close c =
     (if conn_closed (conn c) then (Some ErrClosed, c)
      else (None, c\<lparr>conn := (conn c)\<lparr>conn_closed := True\<rparr>\<rparr>)) \<and>
   conn_closed (conn (snd (Close c))) \<and>
   (fst (Close c) = None) = (\<not> conn_closed (conn c)) \<and>
   Close (snd (Close c)) = (Some ErrClosed, snd (Close c))"
  by (simp add: Close_def conn_Close_def)

section \<open>Subscribe and Unsubscribe\<close>

text \<open>
  C9, as the specification states it, fails: the client has no subscription set
  (its only field is the connection), and \<^verbatim>\<open>Unsubscribe\<close> for a key that was never
  subscribed is not a no-op: it writes its control line. After \<^verbatim>\<open>Subscribe\<close> and
  then \<^verbatim>\<open>Unsubscribe\<close> of one key the client is not as it was before: both lines
  have been written.
\<close>

theorem unsubscribe_writes_a_line:
  "Unsubscribe \<lparr>conn = \<lparr>conn_closed = False, conn_written = [], conn_incoming = []\<rparr>\<rparr> ''sensor1'' =
     (None, \<lparr>conn = \<lparr>conn_closed = False,
                      conn_written = [''unsubscribe,sensor1'' @ [CHR 0x0A]],
                      conn_incoming = []\<rparr>\<rparr>) \<and>
   snd (Unsubscribe (snd (Subscribe \<lparr>conn = \<lparr>conn_closed = False, conn_written = [], conn_incoming = []\<rparr>\<rparr>
                                   ''sensor1'')) ''sensor1'') =
     \<lparr>conn = \<lparr>conn_closed = False,
              conn_written = [''subscribe,sensor1'' @ [CHR 0x0A], ''unsubscribe,sensor1'' @ [CHR 0x0A]],
              conn_incoming = []\<rparr>\<rparr> \<and>
   snd (Unsubscribe \<lparr>conn = \<lparr>conn_closed = False, conn_written = [], conn_incoming = []\<rparr>\<rparr> ''sensor1'')
     \<noteq> \<lparr>conn = \<lparr>conn_closed = False, conn_written = [], conn_incoming = []\<rparr>\<rparr>"
  by (simp add: Unsubscribe_def Subscribe_def conn_Write_def)

text \<open>
  C9, amended. \<^verbatim>\<open>Subscribe\<close> and \<^verbatim>\<open>Unsubscribe\<close> only write their control line,
  \<open>"subscribe,key\n"\<close> and \<open>"unsubscribe,key\n"\<close>, and return the error of that write;
  nothing else of the client changes, whether or not the key was subscribed before.
\<close>

theorem subscribe_unsubscribe_only_write:
  "Subscribe c key =
     (if conn_closed (conn c) then (Some ErrClosed, c)
      else (None, c\<lparr>conn := (conn c)\<lparr>conn_written :=
                     conn_written (conn c) @ [''subscribe,'' @ key @ [CHR 0x0A]]\<rparr>\<rparr>)) \<and>
   Unsubscribe c key =
     (if conn_closed (conn c) then (Some ErrClosed, c)
      else (None, c\<lparr>conn := (conn c)\<lparr>conn_written :=
                     conn_written (conn c) @ [''unsubscribe,'' @ key @ [CHR 0x0A]]\<rparr>\<rparr>)) \<and>
   conn_written (conn (snd (Unsubscribe (snd (Subscribe c key)) key))) =
     (if conn_closed (conn c) then conn_written (conn c)
      else conn_written (conn c) @
             [''subscribe,'' @ key @ [CHR 0x0A], ''unsubscribe,'' @ key @ [CHR 0x0A]])"
  by (simp add: Subscribe_def Unsubscribe_def conn_Write_def)

section \<open>Routing of inbound chunks in the JavaScript driver\<close>

lemma resolved_part:
  "filter is_resolved (concat (map (fire pI pF chunk) ls)) =
     map (\<lambda>q. Resolved q (split_on (CHR ''|'') (js_trim chunk))) (waiting_queries ls)"
  by (induction ls rule: waiting_queries.induct) (simp_all add: filter_map o_def)

lemma called_part:
  "filter (\<lambda>d. \<not> is_resolved d) (concat (map (fire pI pF chunk) ls)) =
     concat (map (\<lambda>cb. map (\<lambda>message. Called cb (decodePushLine pI pF message))
                              (split_on (CHR 0x0A) (js_trim chunk)))
                 (subscription_callbacks ls))"
  by (induction ls rule: subscription_callbacks.induct) (simp_all add: filter_map o_def)

lemma once_removed:
  "waiting_queries (filter (\<lambda>l. \<not> is_once l) ls) = []"
  "subscription_callbacks (filter (\<lambda>l. \<not> is_once l) ls) = subscription_callbacks ls"
  by (induction ls rule: waiting_queries.induct) simp_all

lemma only_queries:
  "subscription_callbacks ls = [] \<Longrightarrow>
   concat (map (fire pI pF chunk) ls) =
     map (\<lambda>q. Resolved q (split_on (CHR ''|'') (js_trim chunk))) (waiting_queries ls)"
  by (induction ls rule: waiting_queries.induct) simp_all

lemma only_callbacks:
  "waiting_queries ls = [] \<Longrightarrow>
   concat (map (fire pI pF chunk) ls) =
     concat (map (\<lambda>cb. map (\<lambda>message. Called cb (decodePushLine pI pF message))
                              (split_on (CHR 0x0A) (js_trim chunk)))
                 (subscription_callbacks ls))"
  by (induction ls rule: waiting_queries.induct) simp_all

lemma ex_js_trim: "js_trim ''sensor1,1700000000,25.5\<newline>'' = ''sensor1,1700000000,25.5''"
  "js_trim ''garbage\<newline>'' = ''garbage''"
  by (simp_all add: js_trim_def js_space_def)

lemma ex_js_parse: "parseInt_plain ''1700000000'' = Num 1700000000" "parseFloat_plain ''25.5'' = Num (51 / 2)"
  by (simp_all add: parseInt_plain_def parseFloat_plain_def ParseInt_def plain_decimal_def
      plain_unsigned_def is_digit_def digit_val_def)

text \<open>
  C1, as the specification states it, fails: there is no router. \<^verbatim>\<open>readData\<close> and
  \<^verbatim>\<open>onSubscriptionData\<close> each register a listener of the same \<^verbatim>\<open>'data'\<close> event, and
  the socket calls every listener. With a subscription callback registered and a
  query in flight, the chunk that answers the query is also decoded as a push line
  and handed to the callback.
\<close>

theorem query_chunk_reaches_subscriber:
  "emit_data parseInt_plain parseFloat_plain
     (readData_js
        (onSubscriptionData \<lparr>js_connected = True, js_written = [], js_listeners = []\<rparr> 7)
        1 ''sensor1'' 0 3600 0)
     ''sensor1,1700000000,25.5\<newline>''
   = ([Called 7 \<lparr>dp_key = Some ''sensor1'', dp_timestamp = Num 1700000000000, dp_value = Num (51 / 2)\<rparr>,
       Resolved 1 [''sensor1,1700000000,25.5'']],
      \<lparr>js_connected = True,
       js_written = [encodeQuery ''sensor1'' 0 3600 0],
       js_listeners = [OnSubscription 7]\<rparr>)"
  by (simp add: emit_data_def readData_js_def onSubscriptionData_def ex_js_trim decodePushLine_def
      element_def parse_arg_def times_1000_def ex_js_parse)

text \<open>
  C1, amended. An inbound chunk is delivered to every listener of the socket: every
  query in flight is resolved with the trimmed chunk split at the vertical bars, and
  its wait is then cleared; every registered subscription callback is called once
  for each line of the trimmed chunk, whether or not a query is in flight, and stays
  registered. A chunk goes to the waiting queries alone only when no subscription
  callback is registered, and to the subscription callbacks alone when no query is in
  flight.
\<close>

theorem chunk_goes_to_every_listener:
  "filter is_resolved (fst (emit_data pI pF cl chunk)) =
     map (\<lambda>q. Resolved q (split_on (CHR ''|'') (js_trim chunk))) (waiting_queries (js_listeners cl)) \<and>
   filter (\<lambda>d. \<not> is_resolved d) (fst (emit_data pI pF cl chunk)) =
     concat (map (\<lambda>cb. map (\<lambda>message. Called cb (decodePushLine pI pF message))
                              (split_on (CHR 0x0A) (js_trim chunk)))
                 (subscription_callbacks (js_listeners cl))) \<and>
   waiting_queries (js_listeners (snd (emit_data pI pF cl chunk))) = [] \<and>
   subscription_callbacks (js_listeners (snd (emit_data pI pF cl chunk))) =
     subscription_callbacks (js_listeners cl) \<and>
   (subscription_callbacks (js_listeners cl) = [] \<longrightarrow>
      fst (emit_data pI pF cl chunk) =
        map (\<lambda>q. Resolved q (split_on (CHR ''|'') (js_trim chunk))) (waiting_queries (js_listeners cl))) \<and>
   (waiting_queries (js_listeners cl) = [] \<longrightarrow>
      fst (emit_data pI pF cl chunk) =
        concat (map (\<lambda>cb. map (\<lambda>message. Called cb (decodePushLine pI pF message))
                                 (split_on (CHR 0x0A) (js_trim chunk)))
                    (subscription_callbacks (js_listeners cl))))"
  by (simp add: emit_data_def resolved_part called_part once_removed only_queries only_callbacks)

theorem chunk_goes_to_every_listener_witness:
  "fst (emit_data parseInt_plain parseFloat_plain
         \<lparr>js_connected = True, js_written = [], js_listeners = [OnceQuery 1]\<rparr>
         ''sensor1,1700000000,25.5\<newline>'')
     = [Resolved 1 [''sensor1,1700000000,25.5'']] \<and>
   fst (emit_data parseInt_plain parseFloat_plain
         \<lparr>js_connected = True, js_written = [], js_listeners = [OnSubscription 7]\<rparr>
         ''sensor1,1700000000,25.5\<newline>'')
     = [Called 7 \<lparr>dp_key = Some ''sensor1'', dp_timestamp = Num 1700000000000, dp_value = Num (51 / 2)\<rparr>]"
  using chunk_goes_to_every_listener[of parseInt_plain parseFloat_plain
          "\<lparr>js_connected = True, js_written = [], js_listeners = [OnceQuery 1]\<rparr>"
          "''sensor1,1700000000,25.5\<newline>''"]
        chunk_goes_to_every_listener[of parseInt_plain parseFloat_plain
          "\<lparr>js_connected = True, js_written = [], js_listeners = [OnSubscription 7]\<rparr>"
          "''sensor1,1700000000,25.5\<newline>''"]
  by (simp add: ex_js_trim decodePushLine_def element_def parse_arg_def times_1000_def ex_js_parse)

section \<open>Malformed push lines\<close>

text \<open>
  C7, as the specification states it, fails: the handler of \<^verbatim>\<open>onSubscriptionData\<close>
  does not check what a line splits into and has no error to signal. A line without
  commas reaches the callback as a data point with an invalid date and a NaN value.
\<close>

theorem malformed_push_line_reaches_callback:
  "emit_data parseInt_plain parseFloat_plain
     \<lparr>js_connected = True, js_written = [], js_listeners = [OnSubscription 7]\<rparr>
     ''garbage\<newline>''
   = ([Called 7 \<lparr>dp_key = Some ''garbage'', dp_timestamp = NaN, dp_value = NaN\<rparr>],
      \<lparr>js_connected = True, js_written = [], js_listeners = [OnSubscription 7]\<rparr>)"
  by (simp add: emit_data_def ex_js_trim decodePushLine_def element_def parse_arg_def times_1000_def)

text \<open>
  C7, amended. For every push line, however it splits at the commas, the handler
  calls the callback exactly once, with the data point made of the first three
  fields; no line is passed over and no error is signalled. A missing timestamp field
  gives an invalid date and a missing value field gives NaN.
\<close>

theorem push_line_always_delivered:
  "length (fire pI pF chunk (OnSubscription cb)) = length (split_on (CHR 0x0A) (js_trim chunk)) \<and>
   fire pI pF chunk (OnSubscription cb) =
     map (\<lambda>message. Called cb (decodePushLine pI pF message)) (split_on (CHR 0x0A) (js_trim chunk)) \<and>
   dp_key (decodePushLine pI pF message) = Some (hd (split_on (CHR '','') message)) \<and>
   (length (split_on (CHR '','') message) < 2 \<longrightarrow> dp_timestamp (decodePushLine pI pF message) = NaN) \<and>
   (length (split_on (CHR '','') message) < 3 \<longrightarrow> dp_value (decodePushLine pI pF message) = NaN)"
proof -
  have "split_on (CHR '','') message \<noteq> []" by (rule split_on_nonempty)
  then have "element (split_on (CHR '','') message) 0 = Some (hd (split_on (CHR '','') message))"
    by (cases "split_on (CHR '','') message") (simp_all add: element_def)
  then show ?thesis
    by (simp add: decodePushLine_def Let_def element_def parse_arg_def times_1000_def)
qed

theorem push_line_always_delivered_witness:
  "fire parseInt_plain parseFloat_plain ''garbage\<newline>'' (OnSubscription 7) =
     [Called 7 (decodePushLine parseInt_plain parseFloat_plain ''garbage'')] \<and>
   dp_key (decodePushLine parseInt_plain parseFloat_plain ''garbage'') = Some ''garbage'' \<and>
   dp_timestamp (decodePushLine parseInt_plain parseFloat_plain ''garbage'') = NaN \<and>
   dp_value (decodePushLine parseInt_plain parseFloat_plain ''garbage'') = NaN"
  using push_line_always_delivered[of parseInt_plain parseFloat_plain "''garbage\<newline>''" 7 "''garbage''"]
  by (simp add: ex_js_trim)


end
